theory Spec2Isabelle
  imports Main
begin

unbundle bit_operations_syntax

section \<open>JavaScript values, completions and promises\<close>

text \<open>
  The values the browser platform adapter inspects. Numbers are the integer-valued ones
  (the code only compares a number with \<open>1\<close> and tests it for truthiness); objects are
  opaque references.
\<close>

datatype jsval =
    JUndefined
  | JNull
  | JBool bool
  | JNum int
  | JStr string
  | JObject nat

text \<open>ToBoolean: \<open>undefined\<close>, \<open>null\<close>, \<open>false\<close>, \<open>0\<close> and \<open>''\<close> are falsy.\<close>

fun truthy :: "jsval \<Rightarrow> bool" where
  "truthy JUndefined = False"
| "truthy JNull = False"
| "truthy (JBool b) = b"
| "truthy (JNum n) = (n \<noteq> 0)"
| "truthy (JStr s) = (s \<noteq> [])"
| "truthy (JObject r) = True"

text \<open>What a \<open>throw\<close> carries.\<close>

datatype js_error =
    ReferenceError string
  | TypeError string
  | HostError string

text \<open>
  A promise is modelled by the way it settles: fulfilled with a value, rejected with a
  reason, or never settled.
\<close>

datatype 'a promise =
    Fulfilled 'a
  | Rejected js_error
  | Pending

text \<open>
  \<open>p.then(f)\<close> and \<open>p.catch(h)\<close> for callbacks that return a plain value or throw
  (\<open>Inl\<close> is the throw): the derived promise takes the callback's completion.
\<close>

fun promise_then :: "'a promise \<Rightarrow> ('a \<Rightarrow> js_error + 'b) \<Rightarrow> 'b promise" where
  "promise_then (Fulfilled v) f = (case f v of Inl e \<Rightarrow> Rejected e | Inr w \<Rightarrow> Fulfilled w)"
| "promise_then (Rejected e) f = Rejected e"
| "promise_then Pending f = Pending"

fun promise_catch :: "'a promise \<Rightarrow> (js_error \<Rightarrow> js_error + 'a) \<Rightarrow> 'a promise" where
  "promise_catch (Fulfilled v) h = Fulfilled v"
| "promise_catch (Rejected e) h = (case h e of Inl e' \<Rightarrow> Rejected e' | Inr w \<Rightarrow> Fulfilled w)"
| "promise_catch Pending h = Pending"

section \<open>The host environment\<close>

text \<open>
  The properties of a global object that the adapter probes. A missing (or falsy)
  property is \<open>None\<close> or \<open>False\<close>.
\<close>

text \<open>\<open>XhrCtor b\<close>: a constructor whose instances have \<open>withCredentials\<close> iff \<open>b\<close>.\<close>

datatype xhr_ctor = XhrCtor bool

record navigator =
  nav_doNotTrack :: jsval
  nav_msDoNotTrack :: jsval

record fetch_init =
  init_method :: string
  init_headers :: "(string \<times> string) list"
  init_body :: jsval

record response =
  res_status :: int
  res_headers_get :: "string \<Rightarrow> jsval"
  res_text :: "string promise"

text \<open>
  Reading \<open>localStorage\<close> may throw (the feature is disabled), give nothing, or give the
  storage object; its three methods may throw as well.
\<close>

record storage =
  getItem :: "string \<Rightarrow> js_error + jsval"
  setItem :: "string \<Rightarrow> string \<Rightarrow> js_error + unit"
  removeItem :: "string \<Rightarrow> js_error + unit"

datatype storage_access =
    StorageThrows js_error
  | StorageAbsent
  | StoragePresent storage

text \<open>
  \<open>Polyfill m\<close>: \<open>EventSourcePolyfill\<close> is a function; \<open>m\<close> is \<open>supportedOptions.method\<close>
  when \<open>supportedOptions\<close> is truthy.
\<close>

datatype polyfill = Polyfill "jsval option"

record globj =
  g_XMLHttpRequest :: "xhr_ctor option"
  g_fetch :: "(string \<Rightarrow> fetch_init \<Rightarrow> response promise) option"
  g_Image :: bool
  g_location :: "string option"
  g_navigator :: "navigator option"
  g_doNotTrack :: jsval
  g_localStorage :: storage_access
  g_EventSource :: bool
  g_EventSourcePolyfill :: "polyfill option"

record document =
  readyState :: string
  visibilityState :: string

text \<open>
  The identifiers \<open>self\<close>, \<open>window\<close>, \<open>global\<close> and \<open>document\<close> are declared or not; a
  declared one refers to an object in the store, so that two names may alias one
  global object and a change of the object is seen through every name.
\<close>

type_synonym addr = nat

record env =
  self_b :: "addr option"
  window_b :: "addr option"
  global_b :: "addr option"
  document_b :: "document option"
  heap :: "addr \<Rightarrow> globj"

text \<open>The module constant \<open>GLOBAL\<close>, computed once when the module is loaded.\<close>

definition locateGlobal :: "env \<Rightarrow> js_error + addr" where
  "locateGlobal e =
     (case self_b e of Some a \<Rightarrow> Inr a
      | None \<Rightarrow>
     (case window_b e of Some a \<Rightarrow> Inr a
      | None \<Rightarrow>
     (case global_b e of Some a \<Rightarrow> Inr a
      | None \<Rightarrow> Inl (HostError ''unable to locate global object''))))"

section \<open>The Do-Not-Track probe\<close>

text \<open>\<open>GLOBAL.navigator.p\<close> behind the guard \<open>GLOBAL.navigator &&\<close>.\<close>

definition navigator_defines :: "globj \<Rightarrow> (navigator \<Rightarrow> jsval) \<Rightarrow> bool" where
  "navigator_defines g p =
     (case g_navigator g of None \<Rightarrow> False | Some n \<Rightarrow> p n \<noteq> JUndefined)"

definition navigator_get :: "globj \<Rightarrow> (navigator \<Rightarrow> jsval) \<Rightarrow> jsval" where
  "navigator_get g p = (case g_navigator g of None \<Rightarrow> JUndefined | Some n \<Rightarrow> p n)"

definition isDoNotTrack :: "addr \<Rightarrow> env \<Rightarrow> bool" where
  "isDoNotTrack G e =
     (let g = heap e G;
          flag =
            (if navigator_defines g nav_doNotTrack then navigator_get g nav_doNotTrack
             else if navigator_defines g nav_msDoNotTrack then navigator_get g nav_msDoNotTrack
             else g_doNotTrack g)
      in flag = JNum 1 \<or> flag = JBool True \<or> flag = JStr ''1'' \<or> flag = JStr ''yes'')"

text \<open>
  The probe as the specification words it: the candidates in order, the first defined
  one selected, and the four accepted values.
\<close>

fun spec_first_defined :: "jsval list \<Rightarrow> jsval" where
  "spec_first_defined [] = JUndefined"
| "spec_first_defined (v # vs) = (if v = JUndefined then spec_first_defined vs else v)"

definition spec_dnt_candidates :: "globj \<Rightarrow> jsval list" where
  "spec_dnt_candidates g =
     [navigator_get g nav_doNotTrack, navigator_get g nav_msDoNotTrack, g_doNotTrack g]"

definition spec_dnt_accepts :: "jsval \<Rightarrow> bool" where
  "spec_dnt_accepts v = (v \<in> set [JNum 1, JBool True, JStr ''1'', JStr ''yes''])"

section \<open>The platform descriptor\<close>

text \<open>
  The \<open>options\<close> argument of \<open>makeBrowserPlatform\<close>, as far as the adapter reads it.
  A user-supplied \<open>eventUrlTransformer\<close> may throw.
\<close>

record options =
  disableSyncEventPost :: jsval
  eventUrlTransformer :: "(string \<Rightarrow> js_error + jsval) option"
  useReport :: jsval

text \<open>\<open>options && options.p\<close> for a value-typed property.\<close>

definition options_prop :: "options option \<Rightarrow> (options \<Rightarrow> jsval) \<Rightarrow> jsval" where
  "options_prop opts p = (case opts of None \<Rightarrow> JUndefined | Some o' \<Rightarrow> p o')"

definition options_transformer :: "options option \<Rightarrow> (string \<Rightarrow> js_error + jsval) option" where
  "options_transformer opts = (case opts of None \<Rightarrow> None | Some o' \<Rightarrow> eventUrlTransformer o')"

text \<open>
  A field of the descriptor is omitted, holds \<open>null\<close>, or is installed. A function
  field is installed with what its closure captured.
\<close>

datatype 'a field = Omitted | NullField | Installed 'a

text \<open>The two \<open>httpRequest\<close> closures; the first captures \<open>disableSyncFlush\<close>.\<close>

datatype http_strategy = XhrStrategy jsval | FetchStrategy

text \<open>\<open>eventSourceConstructor\<close>: the polyfill or the host's \<open>EventSource\<close>.\<close>

datatype es_ctor = ViaPolyfill | ViaEventSource

text \<open>
  The descriptor \<open>ret\<close>. The constant metadata (user agent, version, diagnostic names)
  is assigned unconditionally and is left out.
\<close>

record platform =
  synchronousFlush :: bool
  httpRequest_f :: "http_strategy field"
  httpAllowsPost_f :: "unit field"
  httpFallbackPing_f :: "unit field"
  getCurrentUrl_f :: "(string \<Rightarrow> js_error + jsval) option field"
  isDoNotTrack_f :: "unit field"
  localStorage_f :: "unit field"
  eventSourceAllowsReport :: bool
  eventSourceFactory_f :: "es_ctor field"
  eventSourceIsActive_f :: "unit field"

definition empty_platform :: platform where
  "empty_platform =
     \<lparr> synchronousFlush = False, httpRequest_f = Omitted, httpAllowsPost_f = Omitted,
       httpFallbackPing_f = Omitted, getCurrentUrl_f = Omitted, isDoNotTrack_f = Omitted,
       localStorage_f = Omitted, eventSourceAllowsReport = False,
       eventSourceFactory_f = Omitted, eventSourceIsActive_f = Omitted \<rparr>"

text \<open>
  The condition of the streaming-factory selection: \<open>useReport\<close>, a polyfill that is a
  function, and its \<open>supportedOptions.method\<close>.
\<close>

definition polyfill_supports_report :: "globj \<Rightarrow> bool" where
  "polyfill_supports_report g =
     (case g_EventSourcePolyfill g of
        None \<Rightarrow> False
      | Some (Polyfill so) \<Rightarrow> (case so of None \<Rightarrow> False | Some m \<Rightarrow> truthy m))"

text \<open>
  \<open>makeBrowserPlatform(options)\<close>, with the module constant \<open>GLOBAL\<close> as \<open>G\<close>. The first
  probe reads the identifier \<open>global\<close>, not \<open>GLOBAL\<close>: where \<open>global\<close> is not declared
  the read raises a ReferenceError and nothing is returned.
\<close>

definition makeBrowserPlatform :: "addr \<Rightarrow> env \<Rightarrow> options option \<Rightarrow> js_error + platform" where
  "makeBrowserPlatform G e opts =
     (let ret = empty_platform;
          g = heap e G
      in case global_b e of
           None \<Rightarrow> Inl (ReferenceError ''global is not defined'')
         | Some gl \<Rightarrow>
            (let ret =
                   (if g_XMLHttpRequest (heap e gl) \<noteq> None
                    then ret\<lparr>httpRequest_f :=
                               Installed (XhrStrategy (options_prop opts disableSyncEventPost))\<rparr>
                    else if g_fetch g \<noteq> None
                    then ret\<lparr>httpRequest_f := Installed FetchStrategy\<rparr>
                    else ret);
                 ret = ret\<lparr>httpAllowsPost_f := Installed ()\<rparr>;
                 ret = ret\<lparr>httpFallbackPing_f := Installed ()\<rparr>;
                 ret = ret\<lparr>getCurrentUrl_f := Installed (options_transformer opts)\<rparr>;
                 ret = ret\<lparr>isDoNotTrack_f := Installed ()\<rparr>;
                 ret =
                   (case g_localStorage g of
                      StorageThrows err \<Rightarrow> ret\<lparr>localStorage_f := NullField\<rparr>
                    | StorageAbsent \<Rightarrow> ret
                    | StoragePresent st \<Rightarrow> ret\<lparr>localStorage_f := Installed ()\<rparr>);
                 report = (truthy (options_prop opts useReport) \<and> polyfill_supports_report g);
                 ret = ret\<lparr>eventSourceAllowsReport := report\<rparr>;
                 eventSourceConstructor = (if report then ViaPolyfill else ViaEventSource);
                 ret =
                   (if g_EventSource g
                    then ret\<lparr>eventSourceFactory_f := Installed eventSourceConstructor,
                             eventSourceIsActive_f := Installed ()\<rparr>
                    else ret)
             in Inr ret))"

section \<open>Operations of the descriptor\<close>

type_synonym headers = "(string \<times> string) list"

text \<open>
  The legacy strategy. \<open>newHttpRequest\<close> lives in another module and is a parameter;
  \<open>&\<close> is the bitwise and of the two operands converted to integers.
\<close>

definition xhr_httpRequest ::
  "(string \<Rightarrow> string \<Rightarrow> headers \<Rightarrow> jsval \<Rightarrow> jsval \<Rightarrow> 'r) \<Rightarrow> jsval \<Rightarrow> platform
     \<Rightarrow> string \<Rightarrow> string \<Rightarrow> headers \<Rightarrow> jsval \<Rightarrow> 'r \<times> platform" where
  "xhr_httpRequest newHttpRequest disableSyncFlush ret method url hdrs body =
     (let syncFlush =
            JNum (of_bool (synchronousFlush ret) AND of_bool (\<not> truthy disableSyncFlush));
          ret = ret\<lparr>synchronousFlush := False\<rparr>
      in (newHttpRequest method url hdrs body syncFlush, ret))"

text \<open>Requests issued one after the other, nothing else touching the flag in between.\<close>

fun xhr_httpRequests ::
  "(string \<Rightarrow> string \<Rightarrow> headers \<Rightarrow> jsval \<Rightarrow> jsval \<Rightarrow> 'r) \<Rightarrow> jsval \<Rightarrow> platform
     \<Rightarrow> (string \<times> string \<times> headers \<times> jsval) list \<Rightarrow> 'r list \<times> platform" where
  "xhr_httpRequests newHttpRequest d ret [] = ([], ret)"
| "xhr_httpRequests newHttpRequest d ret ((method, url, hdrs, body) # rqs) =
     (let (r, ret1) = xhr_httpRequest newHttpRequest d ret method url hdrs body;
          (rs, ret2) = xhr_httpRequests newHttpRequest d ret1 rqs
      in (r # rs, ret2))"

text \<open>A \<open>newHttpRequest\<close> that hands back the synchronous-delivery argument it was given.\<close>

definition sync_argument :: "string \<Rightarrow> string \<Rightarrow> headers \<Rightarrow> jsval \<Rightarrow> jsval \<Rightarrow> jsval" where
  "sync_argument method url hdrs body syncFlush = syncFlush"

text \<open>
  The fetch strategy. What the promise settles to is \<open>undefined\<close> or the uniform
  response \<open>{status, header, body}\<close>. The callback of the outer \<open>then\<close> builds the inner
  promise and returns nothing.
\<close>

datatype http_value = HUndefined | HResponse int "string \<Rightarrow> jsval" string

definition fetch_httpRequest ::
  "addr \<Rightarrow> env \<Rightarrow> string \<Rightarrow> string \<Rightarrow> headers \<Rightarrow> jsval \<Rightarrow> js_error + http_value promise" where
  "fetch_httpRequest G e method url hdrs body =
     (case g_fetch (heap e G) of
        None \<Rightarrow> Inl (TypeError ''GLOBAL.fetch is not a function'')
      | Some fetch \<Rightarrow>
          Inr (promise_then
                 (fetch url \<lparr>init_method = method, init_headers = hdrs, init_body = body\<rparr>)
                 (\<lambda>res.
                    let inner =
                          promise_then (res_text res)
                            (\<lambda>text. Inr (HResponse (res_status res) (res_headers_get res) text))
                    in Inr HUndefined)))"

text \<open>
  \<open>httpAllowsPost\<close> with its closure variable \<open>hasCors\<close> passed in and out; the host
  may have changed since the last call.
\<close>

definition httpAllowsPost :: "addr \<Rightarrow> env \<Rightarrow> jsval \<Rightarrow> jsval \<times> jsval" where
  "httpAllowsPost G e hasCors =
     (let hasCors =
            (if hasCors = JUndefined then
               (case g_XMLHttpRequest (heap e G) of
                  Some (XhrCtor withCredentials) \<Rightarrow> JBool withCredentials
                | None \<Rightarrow> if g_fetch (heap e G) \<noteq> None then JBool True else hasCors)
             else hasCors)
      in (hasCors, hasCors))"

text \<open>Successive calls, each in the host as it is at that moment.\<close>

fun httpAllowsPost_calls :: "addr \<Rightarrow> jsval \<Rightarrow> env list \<Rightarrow> jsval list \<times> jsval" where
  "httpAllowsPost_calls G hasCors [] = ([], hasCors)"
| "httpAllowsPost_calls G hasCors (e # es) =
     (let (v, hasCors1) = httpAllowsPost G e hasCors;
          (vs, hasCors2) = httpAllowsPost_calls G hasCors1 es
      in (v # vs, hasCors2))"

text \<open>\<open>httpFallbackPing\<close>: the image load it starts, if any.\<close>

definition httpFallbackPing :: "addr \<Rightarrow> env \<Rightarrow> string \<Rightarrow> string option" where
  "httpFallbackPing G e url = (if g_Image (heap e G) then Some url else None)"

definition getCurrentUrl ::
  "addr \<Rightarrow> env \<Rightarrow> (string \<Rightarrow> js_error + jsval) option \<Rightarrow> js_error + jsval" where
  "getCurrentUrl G e transformer =
     (case g_location (heap e G) of
        None \<Rightarrow> Inr JUndefined
      | Some href \<Rightarrow>
          (case transformer of None \<Rightarrow> Inr (JStr href) | Some t \<Rightarrow> t href))"

text \<open>
  The storage wrapper: the body of each promise executor runs at once, and what it
  throws rejects the promise.
\<close>

definition with_storage :: "addr \<Rightarrow> env \<Rightarrow> (storage \<Rightarrow> js_error + 'a) \<Rightarrow> 'a promise" where
  "with_storage G e body =
     (case g_localStorage (heap e G) of
        StorageThrows err \<Rightarrow> Rejected err
      | StorageAbsent \<Rightarrow> Rejected (TypeError ''GLOBAL.localStorage is undefined'')
      | StoragePresent st \<Rightarrow> (case body st of Inl err \<Rightarrow> Rejected err | Inr v \<Rightarrow> Fulfilled v))"

definition localStorage_get :: "addr \<Rightarrow> env \<Rightarrow> string \<Rightarrow> jsval promise" where
  "localStorage_get G e key = with_storage G e (\<lambda>st. getItem st key)"

definition localStorage_set :: "addr \<Rightarrow> env \<Rightarrow> string \<Rightarrow> string \<Rightarrow> unit promise" where
  "localStorage_set G e key v = with_storage G e (\<lambda>st. setItem st key v)"

definition localStorage_clear :: "addr \<Rightarrow> env \<Rightarrow> string \<Rightarrow> unit promise" where
  "localStorage_clear G e key = with_storage G e (\<lambda>st. removeItem st key)"

section \<open>The initialization shim\<close>

text \<open>
  \<open>client.flush\<close> belongs to the shared core and is a parameter. It is called with the
  descriptor as it is at that moment, may change it (the legacy \<open>httpRequest\<close> clears
  the flag), and returns a promise or throws.
\<close>

type_synonym flush_fn = "platform \<Rightarrow> (js_error + jsval promise) \<times> platform"

text \<open>
  \<open>syncFlush\<close>. The handler returns nothing; the model hands back how it completes:
  the exception that escapes it, or the promise that \<open>.catch(() => {})\<close> leaves behind.
\<close>

definition syncFlush :: "flush_fn \<Rightarrow> platform \<Rightarrow> (js_error + jsval promise) \<times> platform" where
  "syncFlush flush platform =
     (let platform = platform\<lparr>synchronousFlush := True\<rparr>;
          (flushed, platform) = flush platform
      in case flushed of
           Inl err \<Rightarrow> (Inl err, platform)
         | Inr p \<Rightarrow>
             (Inr (promise_catch p (\<lambda>reason. Inr JUndefined)),
              platform\<lparr>synchronousFlush := False\<rparr>))"

text \<open>\<open>handleVisibilityChange\<close>, called only where a document exists.\<close>

definition handleVisibilityChange ::
  "flush_fn \<Rightarrow> document \<Rightarrow> platform \<Rightarrow> (js_error + jsval promise) option \<times> platform" where
  "handleVisibilityChange flush doc platform =
     (if visibilityState doc = ''hidden''
      then (let (r, platform) = syncFlush flush platform in (Some r, platform))
      else (None, platform))"

subsection \<open>The readiness signal\<close>

text \<open>The two states of \<open>goalsPromise\<close>.\<close>

datatype readiness = GoalsPending | GoalsFired

text \<open>
  The listeners on the emitter: the arrow function that \<open>initialize\<close> registers for
  \<open>goalsReady\<close>, and those of the shared core and of the application, which hold no
  reference to \<open>resolve\<close>.
\<close>

datatype listener = GoalsListener | CoreListener nat

record shim =
  emitter :: "(string \<times> listener) list"
  goalsPromise :: readiness
  goalManager :: bool

definition goalsEvent :: string where
  "goalsEvent = ''goalsReady''"

definition hasDOM :: "env \<Rightarrow> bool" where
  "hasDOM e = (window_b e \<noteq> None \<and> document_b e \<noteq> None)"

text \<open>
  Modelled from the spec: the event emitter of the shared core, which is not among the
  sources; its contract is \<open>{on(event, handler), off(event, handler), emit(event)}\<close>.
  \<open>on\<close> appends a registration.
\<close>

definition emitter_on ::
  "string \<Rightarrow> listener \<Rightarrow> (string \<times> listener) list \<Rightarrow> (string \<times> listener) list" where
  "emitter_on ev h em = em @ [(ev, h)]"

text \<open>
  Modelled from the spec: \<open>off(event, handler)\<close> of the same emitter removes the
  registrations of that handler for that event. Its argument in \<open>initialize\<close> is
  \<open>onGoals\<close>, the value that \<open>on\<close> returned, which the contract leaves open: a
  listener or nothing.
\<close>

definition emitter_off ::
  "string \<Rightarrow> listener option \<Rightarrow> (string \<times> listener) list \<Rightarrow> (string \<times> listener) list" where
  "emitter_off ev h em = (case h of None \<Rightarrow> em | Some l \<Rightarrow> filter (\<lambda>x. x \<noteq> (ev, l)) em)"

text \<open>\<open>resolve()\<close> settles a pending promise and leaves a settled one as it is.\<close>

definition resolve :: "readiness \<Rightarrow> readiness" where
  "resolve r = (case r of GoalsPending \<Rightarrow> GoalsFired | GoalsFired \<Rightarrow> GoalsFired)"

text \<open>The body of the registered arrow function: \<open>off\<close>, then \<open>resolve\<close>.\<close>

fun run_listener :: "listener option \<Rightarrow> shim \<Rightarrow> listener \<Rightarrow> shim" where
  "run_listener onGoals s GoalsListener =
     (let s = s\<lparr>emitter := emitter_off goalsEvent onGoals (emitter s)\<rparr>
      in s\<lparr>goalsPromise := resolve (goalsPromise s)\<rparr>)"
| "run_listener onGoals s (CoreListener n) = s"

text \<open>
  Modelled from the spec: \<open>emit(event)\<close> of the same emitter calls the handlers
  registered for the event, in the order of registration.
\<close>

definition emit :: "listener option \<Rightarrow> string \<Rightarrow> shim \<Rightarrow> shim" where
  "emit onGoals ev s =
     foldl (run_listener onGoals) s (map snd (filter (\<lambda>x. fst x = ev) (emitter s)))"

text \<open>
  What \<open>common.initialize\<close> of the shared core hands back, as far as \<open>initialize\<close>
  reads it: the validated option \<open>fetchGoals\<close> and the emitter with the registrations
  it holds by then. The call itself is a parameter of \<open>initialize\<close>; it is given the
  platform descriptor and returns these or throws.
\<close>

record clientVars =
  cv_fetchGoals :: jsval
  cv_emitter :: "(string \<times> listener) list"

text \<open>
  How \<open>initialize\<close> leaves the page lifecycle: whether \<open>start\<close> waits for the \<open>load\<close>
  event or was called at once, and whether the \<open>visibilitychange\<close> and \<open>pagehide\<close>
  listeners are registered.
\<close>

record lifecycle =
  startDeferred :: bool
  pageListeners :: bool

text \<open>
  \<open>initialize(env, user, options)\<close>. Its first statement builds the platform
  descriptor, and what \<open>makeBrowserPlatform\<close> throws leaves \<open>initialize\<close> before the
  promise exists. Then comes the shared core; then the promise is created and its
  listener registered on the core's emitter, and either the goal manager is constructed
  with the callback or the event is emitted at once; then \<open>start\<close> and the page
  listeners. The default \<open>options = {}\<close> makes the argument an object in every call.
\<close>

definition initialize ::
  "addr \<Rightarrow> env \<Rightarrow> options \<Rightarrow> (platform \<Rightarrow> js_error + clientVars) \<Rightarrow> listener option
     \<Rightarrow> js_error + platform \<times> shim \<times> lifecycle" where
  "initialize G e opts common_initialize onGoals =
     (case makeBrowserPlatform G e (Some opts) of
        Inl err \<Rightarrow> Inl err
      | Inr platform \<Rightarrow>
          (case common_initialize platform of
             Inl err \<Rightarrow> Inl err
           | Inr cv \<Rightarrow>
               (let s = \<lparr> emitter = emitter_on goalsEvent GoalsListener (cv_emitter cv),
                          goalsPromise = GoalsPending, goalManager = False \<rparr>;
                    s = (if hasDOM e \<and> truthy (cv_fetchGoals cv)
                         then s\<lparr>goalManager := True\<rparr>
                         else emit onGoals goalsEvent s);
                    loading = (case document_b e of
                                 None \<Rightarrow> False
                               | Some doc \<Rightarrow> readyState doc \<noteq> ''complete'')
                in Inr (platform, s,
                        \<lparr> startDeferred = (hasDOM e \<and> loading), pageListeners = hasDOM e \<rparr>))))"

text \<open>\<open>client.waitUntilGoalsReady\<close> returns the one promise; the model reads its state.\<close>

definition waitUntilGoalsReady :: "shim \<Rightarrow> readiness" where
  "waitUntilGoalsReady s = goalsPromise s"

text \<open>
  Modelled from the spec: the goal manager, which is not among the sources, is given a
  callback to fire the readiness event. What happens after \<open>initialize\<close> is a sequence of
  events: the goal manager calls its callback (\<open>() => emitter.emit(goalsEvent)\<close>), or
  somebody emits an event on the emitter.
\<close>

datatype shim_event = GoalManagerReady | Emitted string

fun shim_step :: "listener option \<Rightarrow> shim \<Rightarrow> shim_event \<Rightarrow> shim" where
  "shim_step onGoals s GoalManagerReady =
     (if goalManager s then emit onGoals goalsEvent s else s)"
| "shim_step onGoals s (Emitted ev) = emit onGoals ev s"

text \<open>The states of the promise along a run, and the changes of state in such a trace.\<close>

fun goals_trace :: "listener option \<Rightarrow> shim \<Rightarrow> shim_event list \<Rightarrow> readiness list" where
  "goals_trace onGoals s [] = [goalsPromise s]"
| "goals_trace onGoals s (ev # evs) =
     goalsPromise s # goals_trace onGoals (shim_step onGoals s ev) evs"

fun firings :: "readiness list \<Rightarrow> nat" where
  "firings (GoalsPending # GoalsFired # tr) = Suc (firings (GoalsFired # tr))"
| "firings (a # b # tr) = firings (b # tr)"
| "firings tr = 0"

fun resets :: "readiness list \<Rightarrow> nat" where
  "resets (GoalsFired # GoalsPending # tr) = Suc (resets (GoalsPending # tr))"
| "resets (a # b # tr) = resets (b # tr)"
| "resets tr = 0"

text \<open>
  While the promise is pending its listener is registered: the invariant of the runs.
\<close>

definition goals_inv :: "shim \<Rightarrow> bool" where
  "goals_inv s = (goalsPromise s = GoalsFired \<or> (goalsEvent, GoalsListener) \<in> set (emitter s))"

section \<open>Example hosts\<close>

text \<open>A global object with none of the probed properties.\<close>

definition bare_globj :: globj where
  "bare_globj =
     \<lparr> g_XMLHttpRequest = None, g_fetch = None, g_Image = False, g_location = None,
       g_navigator = None, g_doNotTrack = JUndefined, g_localStorage = StorageAbsent,
       g_EventSource = False, g_EventSourcePolyfill = None \<rparr>"

definition ok_response :: response where
  "ok_response =
     \<lparr> res_status = 200, res_headers_get = (\<lambda>key. JNull), res_text = Fulfilled ''ok'' \<rparr>"

definition fetch_globj :: globj where
  "fetch_globj = bare_globj\<lparr>g_fetch := Some (\<lambda>url init. Fulfilled ok_response)\<rparr>"

text \<open>A service worker: only \<open>self\<close> is declared, and it has \<open>fetch\<close>.\<close>

definition worker_env :: env where
  "worker_env =
     \<lparr> self_b = Some 0, window_b = None, global_b = None, document_b = None,
       heap = (\<lambda>a. fetch_globj) \<rparr>"

text \<open>A server-side host: only \<open>global\<close> is declared; with and without \<open>fetch\<close>.\<close>

definition node_env :: env where
  "node_env =
     \<lparr> self_b = None, window_b = None, global_b = Some 0, document_b = None,
       heap = (\<lambda>a. fetch_globj) \<rparr>"

definition bare_env :: env where
  "bare_env =
     \<lparr> self_b = None, window_b = None, global_b = Some 0, document_b = None,
       heap = (\<lambda>a. bare_globj) \<rparr>"

text \<open>The same host with storage disabled: reading \<open>localStorage\<close> throws.\<close>

definition locked_env :: env where
  "locked_env =
     bare_env\<lparr>heap := (\<lambda>a. bare_globj\<lparr>g_localStorage :=
                                 StorageThrows (HostError ''SecurityError'')\<rparr>)\<rparr>"

text \<open>The same host with a legacy request object that supports credentials.\<close>

definition xhr_env :: env where
  "xhr_env = bare_env\<lparr>heap := (\<lambda>a. bare_globj\<lparr>g_XMLHttpRequest := Some (XhrCtor True)\<rparr>)\<rparr>"

text \<open>A page: \<open>self\<close> and \<open>window\<close> name the global object, and there is a document.\<close>

definition browser_env :: env where
  "browser_env =
     \<lparr> self_b = Some 0, window_b = Some 0, global_b = None,
       document_b = Some \<lparr>readyState = ''complete'', visibilityState = ''visible''\<rparr>,
       heap = (\<lambda>a. bare_globj) \<rparr>"

text \<open>The same page with storage disabled: reading \<open>localStorage\<close> throws.\<close>

definition locked_page_env :: env where
  "locked_page_env =
     browser_env\<lparr>heap := (\<lambda>a. bare_globj\<lparr>g_localStorage :=
                                    StorageThrows (HostError ''SecurityError'')\<rparr>)\<rparr>"

text \<open>A page on which \<open>global\<close> is declared too and names the same object.\<close>

definition shimmed_page_env :: env where
  "shimmed_page_env = browser_env\<lparr>global_b := Some 0\<rparr>"

text \<open>A shared core that returns, with goal fetching enabled and an empty emitter.\<close>

definition plain_core :: "platform \<Rightarrow> js_error + clientVars" where
  "plain_core platform = Inr \<lparr> cv_fetchGoals = JBool True, cv_emitter = [] \<rparr>"

definition hidden_document :: document where
  "hidden_document = \<lparr>readyState = ''complete'', visibilityState = ''hidden''\<rparr>"

text \<open>A \<open>flush\<close> whose promise rejects, and one that throws unless the flag is set.\<close>

definition rejecting_flush :: flush_fn where
  "rejecting_flush platform = (Inr (Rejected (HostError ''network'')), platform)"

definition flagged_flush :: flush_fn where
  "flagged_flush platform =
     (if synchronousFlush platform then rejecting_flush platform
      else (Inl (HostError ''flush called outside the hidden-page path''), platform))"

section \<open>Properties of the platform builder\<close>

subsection \<open>Construction\<close>

lemma makeBrowserPlatform_returns:
  "global_b e = Some gl \<Longrightarrow> \<exists>ret. makeBrowserPlatform G e opts = Inr ret"
  by (simp add: makeBrowserPlatform_def Let_def)

lemma makeBrowserPlatform_httpRequest:
  "makeBrowserPlatform G e opts = Inr ret \<Longrightarrow> global_b e = Some gl \<Longrightarrow>
   httpRequest_f ret =
     (if g_XMLHttpRequest (heap e gl) \<noteq> None
      then Installed (XhrStrategy (options_prop opts disableSyncEventPost))
      else if g_fetch (heap e G) \<noteq> None then Installed FetchStrategy else Omitted)"
  by (auto simp: makeBrowserPlatform_def Let_def empty_platform_def
           split: option.splits storage_access.splits if_splits)

lemma makeBrowserPlatform_localStorage:
  "makeBrowserPlatform G e opts = Inr ret \<Longrightarrow>
   localStorage_f ret =
     (case g_localStorage (heap e G) of
        StorageThrows err \<Rightarrow> NullField
      | StorageAbsent \<Rightarrow> Omitted
      | StoragePresent st \<Rightarrow> Installed ())"
  by (auto simp: makeBrowserPlatform_def Let_def empty_platform_def
           split: option.splits storage_access.splits if_splits)

lemma makeBrowserPlatform_eventSource:
  "makeBrowserPlatform G e opts = Inr ret \<Longrightarrow>
   eventSourceFactory_f ret =
     (if g_EventSource (heap e G)
      then Installed (if truthy (options_prop opts useReport) \<and> polyfill_supports_report (heap e G)
                      then ViaPolyfill else ViaEventSource)
      else Omitted)
   \<and> eventSourceIsActive_f ret = (if g_EventSource (heap e G) then Installed () else Omitted)"
  by (auto simp: makeBrowserPlatform_def Let_def empty_platform_def
           split: option.splits storage_access.splits if_splits)

lemma makeBrowserPlatform_always:
  "makeBrowserPlatform G e opts = Inr ret \<Longrightarrow>
   httpAllowsPost_f ret = Installed () \<and> httpFallbackPing_f ret = Installed ()
   \<and> getCurrentUrl_f ret = Installed (options_transformer opts)
   \<and> isDoNotTrack_f ret = Installed () \<and> synchronousFlush ret = False"
  by (auto simp: makeBrowserPlatform_def Let_def empty_platform_def
           split: option.splits storage_access.splits if_splits)

text \<open>
  C1. The claim: \<open>makeBrowserPlatform\<close> installs the legacy strategy whenever the global
  object has \<open>XMLHttpRequest\<close>, otherwise the fetch strategy whenever it has \<open>fetch\<close>,
  and neither otherwise. The first probe reads \<open>global.XMLHttpRequest\<close> where every other
  probe (the one in \<open>httpAllowsPost\<close> among them) reads \<open>GLOBAL\<close>. In a service worker,
  where the global object is found through \<open>self\<close>, has \<open>fetch\<close>, and \<open>global\<close> is not
  declared, construction raises a ReferenceError for every options argument and no
  strategy is installed.
\<close>

theorem makeBrowserPlatform_worker_raises:
  "locateGlobal worker_env = Inr 0
   \<and> g_fetch (heap worker_env 0) \<noteq> None
   \<and> makeBrowserPlatform 0 worker_env opts = Inl (ReferenceError ''global is not defined'')"
  by (simp add: locateGlobal_def worker_env_def fetch_globj_def makeBrowserPlatform_def)

text \<open>
  C2. The claim: the promise returned by the fetch strategy resolves to the uniform
  response \<open>{status, header, body}\<close>. The callback of the outer \<open>then\<close> builds that
  object inside an inner \<open>then\<close> and does not return it: on a host whose \<open>fetch\<close>
  fulfils with status 200 and the text \<open>ok\<close>, the fetch strategy is installed and the
  promise of \<open>httpRequest\<close> is fulfilled with \<open>undefined\<close>.
\<close>

theorem fetch_httpRequest_settles_undefined:
  "(\<exists>ret. makeBrowserPlatform 0 node_env None = Inr ret
          \<and> httpRequest_f ret = Installed FetchStrategy)
   \<and> fetch_httpRequest 0 node_env ''GET'' ''https://events.example/'' [] JUndefined
       = Inr (Fulfilled HUndefined)"
  by (simp add: makeBrowserPlatform_def node_env_def fetch_globj_def bare_globj_def
        fetch_httpRequest_def Let_def)

subsection \<open>Missing capabilities\<close>

lemma httpAllowsPost_missing:
  "g_XMLHttpRequest (heap e G) = None \<and> g_fetch (heap e G) = None
     \<longrightarrow> fst (httpAllowsPost G e JUndefined) = JUndefined"
  by (simp add: httpAllowsPost_def)

lemma httpFallbackPing_missing: "\<not> g_Image (heap e G) \<longrightarrow> httpFallbackPing G e url = None"
  by (simp add: httpFallbackPing_def)

lemma getCurrentUrl_missing: "g_location (heap e G) = None \<longrightarrow> getCurrentUrl G e t = Inr JUndefined"
  by (simp add: getCurrentUrl_def)

lemma getCurrentUrl_plain: "\<exists>v. getCurrentUrl G e None = Inr v"
  by (simp add: getCurrentUrl_def split: option.splits)

lemma isDoNotTrack_missing:
  "g_navigator (heap e G) = None \<and> g_doNotTrack (heap e G) = JUndefined \<longrightarrow> \<not> isDoNotTrack G e"
  by (simp add: isDoNotTrack_def navigator_defines_def Let_def)

text \<open>
  C3, as stated, fails: on a host without \<open>Image\<close> and without \<open>location\<close> the fields
  \<open>httpFallbackPing\<close> and \<open>getCurrentUrl\<close> are installed all the same (the functions
  guard the missing API themselves), and a fetch strategy installed while \<open>fetch\<close>
  existed throws a TypeError when it is called after \<open>fetch\<close> has gone.
\<close>

theorem capability_fields_counterexample:
  "\<not> g_Image (heap bare_env 0) \<and> g_location (heap bare_env 0) = None
   \<and> (\<exists>ret. makeBrowserPlatform 0 bare_env None = Inr ret
            \<and> httpFallbackPing_f ret = Installed () \<and> getCurrentUrl_f ret = Installed None)
   \<and> (\<exists>ret. makeBrowserPlatform 0 node_env None = Inr ret
            \<and> httpRequest_f ret = Installed FetchStrategy)
   \<and> g_fetch (heap bare_env 0) = None
   \<and> fetch_httpRequest 0 bare_env ''GET'' ''https://events.example/'' [] JUndefined
       = Inl (TypeError ''GLOBAL.fetch is not a function'')"
  by (simp add: makeBrowserPlatform_def bare_env_def node_env_def bare_globj_def fetch_globj_def
        fetch_httpRequest_def options_transformer_def Let_def)

text \<open>
  C3, amended. On every host where the identifier \<open>global\<close> is declared and names the
  global object, \<open>makeBrowserPlatform\<close> returns a descriptor. In it \<open>httpRequest\<close>,
  \<open>eventSourceFactory\<close>, \<open>eventSourceIsActive\<close> and \<open>localStorage\<close> are omitted exactly
  when the host API behind them is missing; \<open>localStorage\<close> is \<open>null\<close> exactly when reading
  it throws, and none of the other three is ever \<open>null\<close>. The fields \<open>httpAllowsPost\<close>,
  \<open>httpFallbackPing\<close>, \<open>getCurrentUrl\<close> and \<open>isDoNotTrack\<close> are always installed, and
  called on a host \<open>e'\<close> that lacks the API they use they return \<open>undefined\<close>, start no
  image load, return \<open>undefined\<close> and return false; \<open>getCurrentUrl\<close> without a
  user-supplied transformer never throws.
\<close>

theorem makeBrowserPlatform_capabilities:
  assumes "global_b e = Some G"
  shows "\<exists>ret. makeBrowserPlatform G e opts = Inr ret
     \<and> (httpRequest_f ret = Omitted)
         = (g_XMLHttpRequest (heap e G) = None \<and> g_fetch (heap e G) = None)
     \<and> (eventSourceFactory_f ret = Omitted) = (\<not> g_EventSource (heap e G))
     \<and> (eventSourceIsActive_f ret = Omitted) = (\<not> g_EventSource (heap e G))
     \<and> (localStorage_f ret = Omitted) = (g_localStorage (heap e G) = StorageAbsent)
     \<and> (localStorage_f ret = NullField) = (\<exists>err. g_localStorage (heap e G) = StorageThrows err)
     \<and> httpRequest_f ret \<noteq> NullField \<and> eventSourceFactory_f ret \<noteq> NullField
     \<and> eventSourceIsActive_f ret \<noteq> NullField
     \<and> httpAllowsPost_f ret = Installed () \<and> httpFallbackPing_f ret = Installed ()
     \<and> getCurrentUrl_f ret = Installed (options_transformer opts)
     \<and> isDoNotTrack_f ret = Installed ()
     \<and> (g_XMLHttpRequest (heap e' G) = None \<and> g_fetch (heap e' G) = None
           \<longrightarrow> fst (httpAllowsPost G e' JUndefined) = JUndefined)
     \<and> (\<not> g_Image (heap e' G) \<longrightarrow> httpFallbackPing G e' url = None)
     \<and> (g_location (heap e' G) = None
           \<longrightarrow> getCurrentUrl G e' (options_transformer opts) = Inr JUndefined)
     \<and> (\<exists>v. getCurrentUrl G e' None = Inr v)
     \<and> (g_navigator (heap e' G) = None \<and> g_doNotTrack (heap e' G) = JUndefined
           \<longrightarrow> \<not> isDoNotTrack G e')"
proof -
  from assms obtain ret where ret: "makeBrowserPlatform G e opts = Inr ret"
    using makeBrowserPlatform_returns by blast
  note http = makeBrowserPlatform_httpRequest [OF ret assms]
  note es = makeBrowserPlatform_eventSource [OF ret]
  note ls = makeBrowserPlatform_localStorage [OF ret]
  note al = makeBrowserPlatform_always [OF ret]
  have f1: "(httpRequest_f ret = Omitted)
              = (g_XMLHttpRequest (heap e G) = None \<and> g_fetch (heap e G) = None)"
    using http by auto
  have f2: "(eventSourceFactory_f ret = Omitted) = (\<not> g_EventSource (heap e G))"
    using es by auto
  have f3: "(eventSourceIsActive_f ret = Omitted) = (\<not> g_EventSource (heap e G))"
    using es by auto
  have f4: "(localStorage_f ret = Omitted) = (g_localStorage (heap e G) = StorageAbsent)"
    using ls by (cases "g_localStorage (heap e G)") simp_all
  have f5: "(localStorage_f ret = NullField)
              = (\<exists>err. g_localStorage (heap e G) = StorageThrows err)"
    using ls by (cases "g_localStorage (heap e G)") simp_all
  have f6: "httpRequest_f ret \<noteq> NullField" using http by (simp split: if_splits)
  have f7: "eventSourceFactory_f ret \<noteq> NullField" using es by (simp split: if_splits)
  have f8: "eventSourceIsActive_f ret \<noteq> NullField" using es by (simp split: if_splits)
  show ?thesis
  proof (intro exI [of _ ret] conjI)
    show "makeBrowserPlatform G e opts = Inr ret" by (rule ret)
    show "(httpRequest_f ret = Omitted)
            = (g_XMLHttpRequest (heap e G) = None \<and> g_fetch (heap e G) = None)" by (rule f1)
    show "(eventSourceFactory_f ret = Omitted) = (\<not> g_EventSource (heap e G))" by (rule f2)
    show "(eventSourceIsActive_f ret = Omitted) = (\<not> g_EventSource (heap e G))" by (rule f3)
    show "(localStorage_f ret = Omitted) = (g_localStorage (heap e G) = StorageAbsent)"
      by (rule f4)
    show "(localStorage_f ret = NullField)
            = (\<exists>err. g_localStorage (heap e G) = StorageThrows err)" by (rule f5)
    show "httpRequest_f ret \<noteq> NullField" by (rule f6)
    show "eventSourceFactory_f ret \<noteq> NullField" by (rule f7)
    show "eventSourceIsActive_f ret \<noteq> NullField" by (rule f8)
    show "httpAllowsPost_f ret = Installed ()" using al by simp
    show "httpFallbackPing_f ret = Installed ()" using al by simp
    show "getCurrentUrl_f ret = Installed (options_transformer opts)" using al by simp
    show "isDoNotTrack_f ret = Installed ()" using al by simp
    show "g_XMLHttpRequest (heap e' G) = None \<and> g_fetch (heap e' G) = None
            \<longrightarrow> fst (httpAllowsPost G e' JUndefined) = JUndefined"
      by (rule httpAllowsPost_missing)
    show "\<not> g_Image (heap e' G) \<longrightarrow> httpFallbackPing G e' url = None"
      by (rule httpFallbackPing_missing)
    show "g_location (heap e' G) = None
            \<longrightarrow> getCurrentUrl G e' (options_transformer opts) = Inr JUndefined"
      by (rule getCurrentUrl_missing)
    show "\<exists>v. getCurrentUrl G e' None = Inr v" by (rule getCurrentUrl_plain)
    show "g_navigator (heap e' G) = None \<and> g_doNotTrack (heap e' G) = JUndefined
            \<longrightarrow> \<not> isDoNotTrack G e'"
      by (rule isDoNotTrack_missing)
  qed
qed

text \<open>
  The amended C3 on the host where \<open>global\<close> names a global object with none of the
  probed properties.
\<close>

theorem makeBrowserPlatform_capabilities_witness:
  "global_b bare_env = Some 0
   \<and> (\<exists>ret. makeBrowserPlatform 0 bare_env None = Inr ret
        \<and> httpRequest_f ret = Omitted \<and> eventSourceFactory_f ret = Omitted
        \<and> eventSourceIsActive_f ret = Omitted \<and> localStorage_f ret = Omitted
        \<and> httpAllowsPost_f ret = Installed () \<and> httpFallbackPing_f ret = Installed ()
        \<and> getCurrentUrl_f ret = Installed None \<and> isDoNotTrack_f ret = Installed ())
   \<and> fst (httpAllowsPost 0 bare_env JUndefined) = JUndefined
   \<and> httpFallbackPing 0 bare_env ''https://events.example/a.gif'' = None
   \<and> getCurrentUrl 0 bare_env None = Inr JUndefined
   \<and> \<not> isDoNotTrack 0 bare_env"
proof -
  have b: "global_b bare_env = Some 0" by (simp add: bare_env_def)
  have g: "heap bare_env 0 = bare_globj" by (simp add: bare_env_def)
  have m: "g_XMLHttpRequest bare_globj = None" "g_fetch bare_globj = None"
      "\<not> g_Image bare_globj" "g_location bare_globj = None" "g_navigator bare_globj = None"
      "g_doNotTrack bare_globj = JUndefined" "\<not> g_EventSource bare_globj"
      "g_localStorage bare_globj = StorageAbsent"
    by (simp_all add: bare_globj_def)
  have o: "options_transformer None = None" by (simp add: options_transformer_def)
  note t = makeBrowserPlatform_capabilities
             [OF b, of None bare_env "''https://events.example/a.gif''"]
  have fields: "\<exists>ret. makeBrowserPlatform 0 bare_env None = Inr ret
        \<and> httpRequest_f ret = Omitted \<and> eventSourceFactory_f ret = Omitted
        \<and> eventSourceIsActive_f ret = Omitted \<and> localStorage_f ret = Omitted
        \<and> httpAllowsPost_f ret = Installed () \<and> httpFallbackPing_f ret = Installed ()
        \<and> getCurrentUrl_f ret = Installed None \<and> isDoNotTrack_f ret = Installed ()"
    using t unfolding g o by (elim exE conjE, intro exI conjI) (simp_all add: m)
  have p1: "fst (httpAllowsPost 0 bare_env JUndefined) = JUndefined"
    using t unfolding g by (elim exE conjE) (simp add: m)
  have p2: "httpFallbackPing 0 bare_env ''https://events.example/a.gif'' = None"
    using t unfolding g by (elim exE conjE) (simp add: m)
  have p3: "getCurrentUrl 0 bare_env None = Inr JUndefined"
    using t unfolding g o by (elim exE conjE) (simp add: m)
  have p4: "\<not> isDoNotTrack 0 bare_env"
    using t unfolding g by (elim exE conjE) (simp add: m)
  from b fields p1 p2 p3 p4 show ?thesis by (intro conjI)
qed

subsection \<open>Local storage\<close>

text \<open>
  The try/catch around the probe does its work wherever the probe is reached, that is,
  wherever the read of \<open>global\<close> before it did not raise: if reading \<open>localStorage\<close>
  throws, construction returns a descriptor whose \<open>localStorage\<close> is \<open>null\<close>; if storage
  is merely missing, the field is omitted, so the two are told apart.
\<close>

lemma localStorage_probe_where_reached:
  assumes "global_b e = Some gl"
  shows "(g_localStorage (heap e G) = StorageThrows err \<longrightarrow>
            (\<exists>ret. makeBrowserPlatform G e opts = Inr ret \<and> localStorage_f ret = NullField))
         \<and> (g_localStorage (heap e G) = StorageAbsent \<longrightarrow>
            (\<exists>ret. makeBrowserPlatform G e opts = Inr ret \<and> localStorage_f ret = Omitted))"
proof -
  from assms obtain ret where ret: "makeBrowserPlatform G e opts = Inr ret"
    using makeBrowserPlatform_returns by blast
  from makeBrowserPlatform_localStorage [OF ret] ret show ?thesis
    by simp
qed

text \<open>
  The same on a host whose \<open>localStorage\<close> throws a security error, and on one without
  storage.
\<close>

lemma localStorage_probe_where_reached_example:
  "global_b locked_env = Some 0
   \<and> g_localStorage (heap locked_env 0) = StorageThrows (HostError ''SecurityError'')
   \<and> (\<exists>ret. makeBrowserPlatform 0 locked_env None = Inr ret \<and> localStorage_f ret = NullField)
   \<and> global_b bare_env = Some 0
   \<and> g_localStorage (heap bare_env 0) = StorageAbsent
   \<and> (\<exists>ret. makeBrowserPlatform 0 bare_env None = Inr ret \<and> localStorage_f ret = Omitted)"
proof -
  have b1: "global_b locked_env = Some 0" and b2: "global_b bare_env = Some 0"
    by (simp_all add: locked_env_def bare_env_def)
  have s1: "g_localStorage (heap locked_env 0) = StorageThrows (HostError ''SecurityError'')"
    by (simp add: locked_env_def bare_env_def)
  have s2: "g_localStorage (heap bare_env 0) = StorageAbsent"
    by (simp add: bare_env_def bare_globj_def)
  from localStorage_probe_where_reached [OF b1, of 0 "HostError ''SecurityError''" None]
       localStorage_probe_where_reached [OF b2, of 0 "HostError ''SecurityError''" None]
       b1 b2 s1 s2
  show ?thesis by simp
qed

text \<open>
  C7. The claim: if reading \<open>localStorage\<close> throws, construction completes and the
  field is \<open>null\<close>. On a page where storage is disabled, so that reading \<open>localStorage\<close>
  throws, and where \<open>global\<close> is not declared, construction raises the ReferenceError
  of the first probe for every options argument: it returns no descriptor, and the
  \<open>catch\<close> that would set the field to \<open>null\<close> is never reached.
\<close>

theorem makeBrowserPlatform_locked_page_raises:
  "locateGlobal locked_page_env = Inr 0
   \<and> g_localStorage (heap locked_page_env 0) = StorageThrows (HostError ''SecurityError'')
   \<and> makeBrowserPlatform 0 locked_page_env opts = Inl (ReferenceError ''global is not defined'')"
  by (simp add: locateGlobal_def locked_page_env_def browser_env_def makeBrowserPlatform_def)

subsection \<open>Do-Not-Track\<close>

text \<open>
  C8. \<open>isDoNotTrack()\<close> looks at \<open>navigator.doNotTrack\<close>, then \<open>navigator.msDoNotTrack\<close>,
  then the global \<open>doNotTrack\<close>, selects the first that is defined, and answers true
  exactly when the selected value is \<open>1\<close>, \<open>true\<close>, \<open>'1'\<close> or \<open>'yes'\<close>; the values \<open>'0'\<close>,
  \<open>0\<close>, \<open>false\<close> and \<open>undefined\<close> give false.
\<close>

theorem isDoNotTrack_first_defined:
  "isDoNotTrack G e = spec_dnt_accepts (spec_first_defined (spec_dnt_candidates (heap e G)))
   \<and> spec_dnt_accepts (JNum 1) \<and> spec_dnt_accepts (JBool True)
   \<and> spec_dnt_accepts (JStr ''1'') \<and> spec_dnt_accepts (JStr ''yes'')
   \<and> \<not> spec_dnt_accepts (JStr ''0'') \<and> \<not> spec_dnt_accepts (JNum 0)
   \<and> \<not> spec_dnt_accepts (JBool False) \<and> \<not> spec_dnt_accepts JUndefined"
proof -
  have sel: "isDoNotTrack G e
      = spec_dnt_accepts (spec_first_defined (spec_dnt_candidates (heap e G)))"
    by (cases "g_navigator (heap e G)")
       (simp_all add: isDoNotTrack_def spec_dnt_candidates_def spec_dnt_accepts_def
          navigator_defines_def navigator_get_def Let_def)
  have vals: "spec_dnt_accepts (JNum 1)" "spec_dnt_accepts (JBool True)"
      "spec_dnt_accepts (JStr ''1'')" "spec_dnt_accepts (JStr ''yes'')"
      "\<not> spec_dnt_accepts (JStr ''0'')" "\<not> spec_dnt_accepts (JNum 0)"
      "\<not> spec_dnt_accepts (JBool False)" "\<not> spec_dnt_accepts JUndefined"
    by (simp_all add: spec_dnt_accepts_def)
  from sel vals show ?thesis by simp
qed

subsection \<open>The legacy request strategy\<close>

lemma xhr_httpRequest_flag: "synchronousFlush (snd (xhr_httpRequest nh d ret m u h b)) = False"
  by (simp add: xhr_httpRequest_def Let_def)

lemma xhr_httpRequest_delegates:
  "fst (xhr_httpRequest nh d ret m u h b)
     = nh m u h b (fst (xhr_httpRequest sync_argument d ret m u h b))"
  by (simp add: xhr_httpRequest_def Let_def sync_argument_def)

lemma xhr_httpRequest_sync_truthy:
  "truthy (fst (xhr_httpRequest sync_argument d ret m u h b))
     = (synchronousFlush ret \<and> \<not> truthy d)"
  by (simp add: xhr_httpRequest_def Let_def sync_argument_def)

lemma xhr_httpRequest_sync_after_reset:
  "\<not> synchronousFlush ret \<Longrightarrow> fst (xhr_httpRequest sync_argument d ret m u h b) = JNum 0"
  by (simp add: xhr_httpRequest_def Let_def sync_argument_def)

lemma xhr_httpRequests_flag:
  "synchronousFlush (snd (xhr_httpRequests nh d ret rqs)) = (synchronousFlush ret \<and> rqs = [])"
proof (induction rqs arbitrary: ret)
  case Nil
  show ?case by simp
next
  case (Cons rq rqs)
  obtain m u h b where rq: "rq = (m, u, h, b)" by (cases rq) auto
  show ?case
    using Cons.IH [of "snd (xhr_httpRequest nh d ret m u h b)"] xhr_httpRequest_flag [of nh d ret m u h b]
    by (auto simp: rq Let_def split: prod.splits)
qed

lemma xhr_httpRequests_all_zero:
  "\<not> synchronousFlush ret \<Longrightarrow>
   fst (xhr_httpRequests sync_argument d ret rqs) = replicate (length rqs) (JNum 0)"
proof (induction rqs arbitrary: ret)
  case Nil
  show ?case by simp
next
  case (Cons rq rqs)
  obtain m u h b where rq: "rq = (m, u, h, b)" by (cases rq) auto
  have fl: "\<not> synchronousFlush (snd (xhr_httpRequest sync_argument d ret m u h b))"
    by (simp add: xhr_httpRequest_flag)
  show ?case
    using Cons.IH [OF fl] xhr_httpRequest_sync_after_reset [OF Cons.prems, of d m u h b]
    by (auto simp: rq Let_def split: prod.splits)
qed

lemma xhr_httpRequests_tail:
  "tl (fst (xhr_httpRequests sync_argument d ret rqs)) = replicate (length rqs - 1) (JNum 0)"
proof (cases rqs)
  case Nil
  then show ?thesis by simp
next
  case (Cons rq rqs')
  obtain m u h b where rq: "rq = (m, u, h, b)" by (cases rq) auto
  have fl: "\<not> synchronousFlush (snd (xhr_httpRequest sync_argument d ret m u h b))"
    by (simp add: xhr_httpRequest_flag)
  show ?thesis
    using xhr_httpRequests_all_zero [OF fl, of d rqs']
    by (auto simp: Cons rq Let_def split: prod.splits)
qed

text \<open>
  C9. Every call of the legacy \<open>httpRequest\<close> leaves \<open>synchronousFlush\<close> false and
  delegates to \<open>newHttpRequest\<close> with a synchronous-delivery argument that is truthy
  exactly when the flag was set and the captured \<open>disableSyncEventPost\<close> (\<open>d\<close>) is
  falsy. After any sequence of requests the flag is false, and of the requests issued
  in a row after the flag was set every one but the first is passed \<open>0\<close>.
\<close>

theorem xhr_httpRequest_resets_flag:
  "synchronousFlush (snd (xhr_httpRequest nh d ret m u h b)) = False
   \<and> fst (xhr_httpRequest nh d ret m u h b)
       = nh m u h b (fst (xhr_httpRequest sync_argument d ret m u h b))
   \<and> truthy (fst (xhr_httpRequest sync_argument d ret m u h b))
       = (synchronousFlush ret \<and> \<not> truthy d)
   \<and> synchronousFlush (snd (xhr_httpRequests nh d ret rqs)) = (synchronousFlush ret \<and> rqs = [])
   \<and> tl (fst (xhr_httpRequests sync_argument d ret rqs)) = replicate (length rqs - 1) (JNum 0)"
  by (intro conjI xhr_httpRequest_flag xhr_httpRequest_delegates
        xhr_httpRequest_sync_truthy xhr_httpRequests_flag xhr_httpRequests_tail)

subsection \<open>The capability probe httpAllowsPost\<close>

lemma httpAllowsPost_cell: "snd (httpAllowsPost G e c) = fst (httpAllowsPost G e c)"
  by (simp add: httpAllowsPost_def Let_def)

lemma httpAllowsPost_filled: "c \<noteq> JUndefined \<Longrightarrow> httpAllowsPost G e c = (c, c)"
  by (simp add: httpAllowsPost_def)

lemma httpAllowsPost_calls_filled:
  "c \<noteq> JUndefined \<Longrightarrow> httpAllowsPost_calls G c es = (replicate (length es) c, c)"
  by (induction es) (simp_all add: httpAllowsPost_filled)

lemma httpAllowsPost_neither:
  "g_XMLHttpRequest (heap e G) = None \<Longrightarrow> g_fetch (heap e G) = None \<Longrightarrow>
   httpAllowsPost G e JUndefined = (JUndefined, JUndefined)"
  by (simp add: httpAllowsPost_def)

lemma httpAllowsPost_calls_neither:
  "\<forall>e \<in> set es. g_XMLHttpRequest (heap e G) = None \<and> g_fetch (heap e G) = None \<Longrightarrow>
   httpAllowsPost_calls G JUndefined es = (replicate (length es) JUndefined, JUndefined)"
  by (induction es) (simp_all add: httpAllowsPost_neither)

text \<open>
  C4, as stated, fails: on a host with neither \<open>XMLHttpRequest\<close> nor \<open>fetch\<close> the first
  call returns \<open>undefined\<close> and stores nothing; once the host has \<open>fetch\<close>, the second
  call returns \<open>true\<close>.
\<close>

theorem httpAllowsPost_two_answers:
  "fst (httpAllowsPost_calls 0 JUndefined [bare_env, node_env]) = [JUndefined, JBool True]
   \<and> JBool True \<noteq> JUndefined"
  by (simp add: httpAllowsPost_def bare_env_def node_env_def bare_globj_def fetch_globj_def Let_def)

text \<open>
  C4, amended. Once a call of \<open>httpAllowsPost()\<close> has returned a value other than
  \<open>undefined\<close>, every later call returns that value, whatever has become of the host in
  between (the hosts \<open>es\<close> of the later calls are arbitrary).
\<close>

theorem httpAllowsPost_memoized_once_defined:
  assumes "httpAllowsPost G e hasCors = (v, c)" and "v \<noteq> JUndefined"
  shows "httpAllowsPost_calls G c es = (replicate (length es) v, v)"
proof -
  from assms(1) httpAllowsPost_cell [of G e hasCors] have "c = v" by simp
  with assms(2) show ?thesis by (simp add: httpAllowsPost_calls_filled)
qed

text \<open>
  The amended C4 where \<open>XMLHttpRequest\<close> is there at the first call and gone at the
  later ones.
\<close>

theorem httpAllowsPost_memoized_once_defined_witness:
  "httpAllowsPost 0 xhr_env JUndefined = (JBool True, JBool True)
   \<and> JBool True \<noteq> JUndefined
   \<and> httpAllowsPost_calls 0 (JBool True) [bare_env, node_env]
       = ([JBool True, JBool True], JBool True)"
proof -
  have h1: "httpAllowsPost 0 xhr_env JUndefined = (JBool True, JBool True)"
    by (simp add: httpAllowsPost_def xhr_env_def bare_env_def Let_def)
  have h2: "JBool True \<noteq> JUndefined" by simp
  from httpAllowsPost_memoized_once_defined [OF h1 h2, of "[bare_env, node_env]"] h1 h2
  show ?thesis by (simp del: httpAllowsPost_calls.simps)
qed

text \<open>
  C10. As long as neither \<open>XMLHttpRequest\<close> nor \<open>fetch\<close> is present at the calls of
  \<open>httpAllowsPost()\<close> on a new descriptor, every call returns \<open>undefined\<close> and the cell
  stays empty; the next call probes the host \<open>e'\<close> anew.
\<close>

theorem httpAllowsPost_undefined_without_transport:
  assumes "\<forall>e \<in> set es. g_XMLHttpRequest (heap e G) = None \<and> g_fetch (heap e G) = None"
  shows "httpAllowsPost_calls G JUndefined es = (replicate (length es) JUndefined, JUndefined)
         \<and> fst (httpAllowsPost G e' (snd (httpAllowsPost_calls G JUndefined es)))
             = (case g_XMLHttpRequest (heap e' G) of
                  Some (XhrCtor w) \<Rightarrow> JBool w
                | None \<Rightarrow> if g_fetch (heap e' G) \<noteq> None then JBool True else JUndefined)"
proof -
  have calls: "httpAllowsPost_calls G JUndefined es = (replicate (length es) JUndefined, JUndefined)"
    using assms by (rule httpAllowsPost_calls_neither)
  have "fst (httpAllowsPost G e' JUndefined)
      = (case g_XMLHttpRequest (heap e' G) of
           Some (XhrCtor w) \<Rightarrow> JBool w
         | None \<Rightarrow> if g_fetch (heap e' G) \<noteq> None then JBool True else JUndefined)"
    by (simp add: httpAllowsPost_def Let_def split: option.splits xhr_ctor.splits)
  with calls show ?thesis by simp
qed

text \<open>
  C10 with two calls on a host without either API, followed by a call once \<open>fetch\<close> is
  there.
\<close>

theorem httpAllowsPost_undefined_without_transport_witness:
  "g_XMLHttpRequest (heap bare_env 0) = None \<and> g_fetch (heap bare_env 0) = None
   \<and> httpAllowsPost_calls 0 JUndefined [bare_env, bare_env] = ([JUndefined, JUndefined], JUndefined)
   \<and> fst (httpAllowsPost 0 node_env (snd (httpAllowsPost_calls 0 JUndefined [bare_env, bare_env])))
       = JBool True"
proof -
  have h: "\<forall>e \<in> set [bare_env, bare_env].
             g_XMLHttpRequest (heap e 0) = None \<and> g_fetch (heap e 0) = None"
    by (simp add: bare_env_def bare_globj_def)
  have n: "g_XMLHttpRequest (heap node_env 0) = None" "g_fetch (heap node_env 0) \<noteq> None"
    by (simp_all add: node_env_def fetch_globj_def bare_globj_def)
  note t = httpAllowsPost_undefined_without_transport [OF h, of node_env]
  have c1: "httpAllowsPost_calls 0 JUndefined [bare_env, bare_env]
              = ([JUndefined, JUndefined], JUndefined)"
    using t [THEN conjunct1] by (simp del: httpAllowsPost_calls.simps)
  have c2: "fst (httpAllowsPost 0 node_env
                  (snd (httpAllowsPost_calls 0 JUndefined [bare_env, bare_env]))) = JBool True"
    using t [THEN conjunct2] n by (simp del: httpAllowsPost_calls.simps)
  from h have h1: "g_XMLHttpRequest (heap bare_env 0) = None"
    and h2: "g_fetch (heap bare_env 0) = None" by simp_all
  from h1 h2 c1 c2 show ?thesis by (intro conjI)
qed

section \<open>Properties of the initialization shim\<close>

subsection \<open>The hidden-page handler\<close>

lemma syncFlush_flag:
  assumes "fst (flush (platform\<lparr>synchronousFlush := True\<rparr>)) = Inr p"
  shows "synchronousFlush (snd (syncFlush flush platform)) = False"
  using assms
  by (cases "flush (platform\<lparr>synchronousFlush := True\<rparr>)") (simp add: syncFlush_def)

lemma syncFlush_promise:
  assumes "fst (flush (platform\<lparr>synchronousFlush := True\<rparr>)) = Inr p"
  shows "fst (syncFlush flush platform) = Inr (promise_catch p (\<lambda>reason. Inr JUndefined))"
  using assms
  by (cases "flush (platform\<lparr>synchronousFlush := True\<rparr>)") (simp add: syncFlush_def)

lemma promise_catch_swallows: "promise_catch p (\<lambda>reason. Inr JUndefined) \<noteq> Rejected err"
  by (cases p) simp_all

lemma syncFlush_calls_with_flag:
  assumes "\<forall>s. synchronousFlush s \<longrightarrow> flush' s = flush s"
  shows "syncFlush flush' platform = syncFlush flush platform"
  using assms by (simp add: syncFlush_def Let_def)

text \<open>
  C5. When \<open>flush\<close> returns a promise \<open>p\<close>, the hidden-page handler ends with
  \<open>synchronousFlush\<close> false; the promise it leaves behind is \<open>p.catch(() => {})\<close>, which
  is never rejected, whatever \<open>p\<close> is; \<open>flush\<close> is only called with the flag set (a
  \<open>flush'\<close> that agrees with \<open>flush\<close> on descriptors with the flag set gives the same
  run); and \<open>handleVisibilityChange\<close> on a hidden document is that handler.
\<close>

theorem syncFlush_sets_and_resets_flag:
  assumes "fst (flush (platform\<lparr>synchronousFlush := True\<rparr>)) = Inr p"
  shows "synchronousFlush (snd (syncFlush flush platform)) = False
         \<and> fst (syncFlush flush platform) = Inr (promise_catch p (\<lambda>reason. Inr JUndefined))
         \<and> promise_catch p (\<lambda>reason. Inr JUndefined) \<noteq> Rejected err
         \<and> ((\<forall>s. synchronousFlush s \<longrightarrow> flush' s = flush s)
              \<longrightarrow> syncFlush flush' platform = syncFlush flush platform)
         \<and> (visibilityState doc = ''hidden'' \<longrightarrow>
              handleVisibilityChange flush doc platform
                = (Some (fst (syncFlush flush platform)), snd (syncFlush flush platform)))"
proof (intro conjI)
  show "synchronousFlush (snd (syncFlush flush platform)) = False"
    using assms by (rule syncFlush_flag)
  show "fst (syncFlush flush platform) = Inr (promise_catch p (\<lambda>reason. Inr JUndefined))"
    using assms by (rule syncFlush_promise)
  show "promise_catch p (\<lambda>reason. Inr JUndefined) \<noteq> Rejected err"
    by (rule promise_catch_swallows)
  show "(\<forall>s. synchronousFlush s \<longrightarrow> flush' s = flush s)
          \<longrightarrow> syncFlush flush' platform = syncFlush flush platform"
    using syncFlush_calls_with_flag by blast
  show "visibilityState doc = ''hidden'' \<longrightarrow>
          handleVisibilityChange flush doc platform
            = (Some (fst (syncFlush flush platform)), snd (syncFlush flush platform))"
    by (simp add: handleVisibilityChange_def split: prod.splits)
qed

text \<open>
  C5 with a \<open>flush\<close> whose promise rejects, compared with one that throws when the
  flag is not set, and on a hidden document.
\<close>

theorem syncFlush_sets_and_resets_flag_witness:
  "fst (rejecting_flush (empty_platform\<lparr>synchronousFlush := True\<rparr>))
     = Inr (Rejected (HostError ''network''))
   \<and> synchronousFlush (snd (syncFlush rejecting_flush empty_platform)) = False
   \<and> fst (syncFlush rejecting_flush empty_platform) = Inr (Fulfilled JUndefined)
   \<and> syncFlush flagged_flush empty_platform = syncFlush rejecting_flush empty_platform
   \<and> visibilityState hidden_document = ''hidden''
   \<and> handleVisibilityChange rejecting_flush hidden_document empty_platform
       = (Some (Inr (Fulfilled JUndefined)), empty_platform)"
proof -
  have h: "fst (rejecting_flush (empty_platform\<lparr>synchronousFlush := True\<rparr>))
             = Inr (Rejected (HostError ''network''))"
    by (simp add: rejecting_flush_def)
  have f: "\<forall>s. synchronousFlush s \<longrightarrow> flagged_flush s = rejecting_flush s"
    by (simp add: flagged_flush_def)
  have d: "visibilityState hidden_document = ''hidden''"
    by (simp add: hidden_document_def)
  note t = syncFlush_sets_and_resets_flag
    [where flush = rejecting_flush and platform = empty_platform
       and p = "Rejected (HostError ''network'')" and flush' = flagged_flush
       and doc = hidden_document and err = "HostError ''network''", OF h]
  have c1: "synchronousFlush (snd (syncFlush rejecting_flush empty_platform)) = False"
    using t by blast
  have c2: "fst (syncFlush rejecting_flush empty_platform) = Inr (Fulfilled JUndefined)"
    using t by simp
  have c3: "syncFlush flagged_flush empty_platform = syncFlush rejecting_flush empty_platform"
    using t f by blast
  have c4: "snd (syncFlush rejecting_flush empty_platform) = empty_platform"
    by (simp add: syncFlush_def rejecting_flush_def empty_platform_def)
  have c5: "handleVisibilityChange rejecting_flush hidden_document empty_platform
              = (Some (Inr (Fulfilled JUndefined)), empty_platform)"
    using t d c2 c4 by simp
  from h c1 c2 c3 d c5 show ?thesis by (intro conjI)
qed

subsection \<open>The readiness signal\<close>

lemma run_listeners_fired:
  "goalsPromise s = GoalsFired \<Longrightarrow> goalsPromise (foldl (run_listener og) s hs) = GoalsFired"
proof (induction hs arbitrary: s)
  case Nil
  then show ?case by simp
next
  case (Cons h hs)
  have "goalsPromise (run_listener og s h) = GoalsFired"
    using Cons.prems by (cases h) (simp_all add: resolve_def)
  then show ?case using Cons.IH by simp
qed

lemma run_listeners_goals:
  "GoalsListener \<in> set hs \<Longrightarrow> goalsPromise (foldl (run_listener og) s hs) = GoalsFired"
proof (induction hs arbitrary: s)
  case Nil
  then show ?case by simp
next
  case (Cons h hs)
  show ?case
  proof (cases h)
    case GoalsListener
    have "goalsPromise (run_listener og s GoalsListener) = GoalsFired"
      by (cases "goalsPromise s") (simp_all add: resolve_def)
    then show ?thesis using GoalsListener run_listeners_fired by simp
  next
    case (CoreListener n)
    then show ?thesis using Cons by simp
  qed
qed

lemma run_listeners_core:
  "GoalsListener \<notin> set hs \<Longrightarrow> foldl (run_listener og) s hs = s"
proof (induction hs arbitrary: s)
  case Nil
  then show ?case by simp
next
  case (Cons h hs)
  then show ?case by (cases h) simp_all
qed

lemma run_listeners_goalManager:
  "goalManager (foldl (run_listener og) s hs) = goalManager s"
proof (induction hs arbitrary: s)
  case Nil
  then show ?case by simp
next
  case (Cons h hs)
  have "goalManager (run_listener og s h) = goalManager s"
    by (cases h) simp_all
  then show ?case using Cons.IH by simp
qed

lemma emit_fired: "goalsPromise s = GoalsFired \<Longrightarrow> goalsPromise (emit og ev s) = GoalsFired"
  by (simp add: emit_def run_listeners_fired)

lemma emit_goalsEvent:
  assumes "goals_inv s"
  shows "goalsPromise (emit og goalsEvent s) = GoalsFired"
proof (cases "goalsPromise s")
  case GoalsFired
  then show ?thesis by (rule emit_fired)
next
  case GoalsPending
  with assms have "(goalsEvent, GoalsListener) \<in> set (emitter s)"
    by (simp add: goals_inv_def)
  then have "GoalsListener \<in> set (map snd (filter (\<lambda>x. fst x = goalsEvent) (emitter s)))"
    by force
  then show ?thesis by (simp add: emit_def run_listeners_goals)
qed

lemma emit_inv:
  assumes "goals_inv s"
  shows "goals_inv (emit og ev s)"
proof (cases "GoalsListener \<in> set (map snd (filter (\<lambda>x. fst x = ev) (emitter s)))")
  case True
  then have "goalsPromise (emit og ev s) = GoalsFired"
    by (simp add: emit_def run_listeners_goals)
  then show ?thesis by (simp add: goals_inv_def)
next
  case False
  then have "emit og ev s = s"
    unfolding emit_def by (rule run_listeners_core)
  with assms show ?thesis by simp
qed

lemma emit_goalManager: "goalManager (emit og ev s) = goalManager s"
  by (simp add: emit_def run_listeners_goalManager)

lemma step_inv: "goals_inv s \<Longrightarrow> goals_inv (shim_step og s ev)"
  by (cases ev) (simp_all add: emit_inv)

lemma step_fired: "goalsPromise s = GoalsFired \<Longrightarrow> goalsPromise (shim_step og s ev) = GoalsFired"
  by (cases ev) (simp_all add: emit_fired)

lemma step_goalManager: "goalManager (shim_step og s ev) = goalManager s"
  by (cases ev) (simp_all add: emit_goalManager)

lemma trace_fired:
  "goalsPromise s = GoalsFired \<Longrightarrow>
   goals_trace og s evs = replicate (Suc (length evs)) GoalsFired"
  by (induction evs arbitrary: s) (simp_all add: step_fired)

lemma run_fired:
  "goalsPromise s = GoalsFired \<Longrightarrow> goalsPromise (foldl (shim_step og) s evs) = GoalsFired"
  by (induction evs arbitrary: s) (simp_all add: step_fired)

lemma firings_fired: "firings (replicate n GoalsFired) = 0"
proof (induction n)
  case 0
  show ?case by simp
next
  case (Suc n)
  then show ?case by (cases n) simp_all
qed

lemma resets_fired: "resets (replicate n GoalsFired) = 0"
proof (induction n)
  case 0
  show ?case by simp
next
  case (Suc n)
  then show ?case by (cases n) simp_all
qed

lemma trace_head: "\<exists>tr. goals_trace og s evs = goalsPromise s # tr"
  by (cases evs) simp_all

lemma trace_resets: "resets (goals_trace og s evs) = 0"
proof (induction evs arbitrary: s)
  case Nil
  show ?case by simp
next
  case (Cons ev evs)
  obtain tr where tr: "goals_trace og (shim_step og s ev) evs = goalsPromise (shim_step og s ev) # tr"
    using trace_head by blast
  show ?case
  proof (cases "goalsPromise s")
    case GoalsPending
    then show ?thesis using Cons.IH [of "shim_step og s ev"] tr by simp
  next
    case GoalsFired
    then have "goalsPromise (shim_step og s ev) = GoalsFired" by (rule step_fired)
    then show ?thesis using Cons.IH [of "shim_step og s ev"] tr GoalsFired by simp
  qed
qed

lemma trace_firings_pending:
  assumes "goals_inv s" and "goalManager s" and "goalsPromise s = GoalsPending"
    and "GoalManagerReady \<in> set evs"
  shows "firings (goals_trace og s evs) = 1"
  using assms
proof (induction evs arbitrary: s)
  case Nil
  then show ?case by simp
next
  case (Cons ev evs)
  let ?s = "shim_step og s ev"
  obtain tr where tr: "goals_trace og ?s evs = goalsPromise ?s # tr"
    using trace_head by blast
  show ?case
  proof (cases "goalsPromise ?s")
    case GoalsFired
    then have "goals_trace og ?s evs = replicate (Suc (length evs)) GoalsFired"
      by (rule trace_fired)
    then have "firings (goals_trace og s (ev # evs))
                 = Suc (firings (replicate (Suc (length evs)) GoalsFired))"
      using Cons.prems(3) by simp
    then show ?thesis by (simp only: firings_fired)
  next
    case GoalsPending
    have "ev \<noteq> GoalManagerReady"
    proof
      assume "ev = GoalManagerReady"
      then have "goalsPromise ?s = GoalsFired"
        using Cons.prems(1,2) by (simp add: emit_goalsEvent)
      with GoalsPending show False by simp
    qed
    then have mem: "GoalManagerReady \<in> set evs" using Cons.prems(4) by auto
    have "firings (goals_trace og ?s evs) = 1"
      using Cons.IH [of ?s] step_inv [OF Cons.prems(1)] Cons.prems(2) GoalsPending mem
      by (simp add: step_goalManager)
    then show ?thesis using tr GoalsPending Cons.prems(3) by simp
  qed
qed

lemma run_fires:
  assumes "goals_inv s" and "goalManager s" and "GoalManagerReady \<in> set evs"
  shows "goalsPromise (foldl (shim_step og) s evs) = GoalsFired"
  using assms
proof (induction evs arbitrary: s)
  case Nil
  then show ?case by simp
next
  case (Cons ev evs)
  show ?case
  proof (cases "ev = GoalManagerReady")
    case True
    then have "goalsPromise (shim_step og s ev) = GoalsFired"
      using Cons.prems(1,2) by (simp add: emit_goalsEvent)
    then show ?thesis by (simp add: run_fired)
  next
    case False
    then have "GoalManagerReady \<in> set evs" using Cons.prems(3) by auto
    then show ?thesis
      using Cons.IH [of "shim_step og s ev"] step_inv [OF Cons.prems(1)] Cons.prems(2)
      by (simp add: step_goalManager)
  qed
qed

lemma initialize_returns:
  assumes "makeBrowserPlatform G e (Some opts) = Inr platform" and "core platform = Inr cv"
  shows "\<exists>s lc. initialize G e opts core og = Inr (platform, s, lc)"
  using assms by (simp add: initialize_def Let_def)

lemma initialize_shim:
  assumes "initialize G e opts core og = Inr (platform, s, lc)"
  shows "makeBrowserPlatform G e (Some opts) = Inr platform
         \<and> (\<exists>cv. core platform = Inr cv
               \<and> s = (if hasDOM e \<and> truthy (cv_fetchGoals cv)
                      then \<lparr> emitter = emitter_on goalsEvent GoalsListener (cv_emitter cv),
                             goalsPromise = GoalsPending, goalManager = True \<rparr>
                      else emit og goalsEvent
                             \<lparr> emitter = emitter_on goalsEvent GoalsListener (cv_emitter cv),
                               goalsPromise = GoalsPending, goalManager = False \<rparr>))"
  using assms by (auto simp: initialize_def Let_def split: sum.splits)

lemma wired_inv:
  "goals_inv \<lparr> emitter = emitter_on goalsEvent GoalsListener em,
              goalsPromise = GoalsPending, goalManager = gm \<rparr>"
  by (simp add: goals_inv_def emitter_on_def)

lemma initialize_inv:
  assumes "initialize G e opts core og = Inr (platform, s, lc)"
  shows "goals_inv s"
proof -
  from initialize_shim [OF assms] obtain cv where
    "core platform = Inr cv" and
    s: "s = (if hasDOM e \<and> truthy (cv_fetchGoals cv)
             then \<lparr> emitter = emitter_on goalsEvent GoalsListener (cv_emitter cv),
                    goalsPromise = GoalsPending, goalManager = True \<rparr>
             else emit og goalsEvent
                    \<lparr> emitter = emitter_on goalsEvent GoalsListener (cv_emitter cv),
                      goalsPromise = GoalsPending, goalManager = False \<rparr>)"
    by blast
  show ?thesis
  proof (cases "hasDOM e \<and> truthy (cv_fetchGoals cv)")
    case True
    with s show ?thesis by (simp add: wired_inv)
  next
    case False
    with s show ?thesis by (simp add: emit_inv wired_inv)
  qed
qed

lemma initialize_immediate:
  assumes "initialize G e opts core og = Inr (platform, s, lc)" and "core platform = Inr cv"
    and "\<not> (hasDOM e \<and> truthy (cv_fetchGoals cv))"
  shows "goalsPromise s = GoalsFired"
proof -
  from initialize_shim [OF assms(1)] assms(2,3)
  have "s = emit og goalsEvent
              \<lparr> emitter = emitter_on goalsEvent GoalsListener (cv_emitter cv),
                goalsPromise = GoalsPending, goalManager = False \<rparr>"
    by auto
  then show ?thesis by (simp add: emit_goalsEvent wired_inv)
qed

lemma initialize_deferred:
  assumes "initialize G e opts core og = Inr (platform, s, lc)" and "core platform = Inr cv"
    and "hasDOM e \<and> truthy (cv_fetchGoals cv)"
  shows "goalsPromise s = GoalsPending \<and> goalManager s"
proof -
  from initialize_shim [OF assms(1)] assms(2,3)
  have "s = \<lparr> emitter = emitter_on goalsEvent GoalsListener (cv_emitter cv),
              goalsPromise = GoalsPending, goalManager = True \<rparr>"
    by auto
  then show ?thesis by simp
qed

text \<open>
  Where \<open>initialize\<close> gets past the platform builder and the shared core, the signal is
  as the specification describes it. Take a run of events after \<open>initialize\<close> in which,
  where goal fetching is enabled and a DOM is present, the goal manager calls its
  callback at least once. Along the run the promise goes from pending to fired exactly
  once and never back. Without DOM or goal fetching it is fired when \<open>initialize\<close>
  returns; otherwise \<open>waitUntilGoalsReady()\<close> finds it pending then, and fired after the
  goal manager's callback. A caller of \<open>waitUntilGoalsReady()\<close> after the run finds it
  fired.
\<close>

lemma goalsReady_fires_once_where_constructed:
  assumes init: "initialize G e opts core og = Inr (platform, s, lc)"
    and core: "core platform = Inr cv"
    and evs: "\<not> (hasDOM e \<and> truthy (cv_fetchGoals cv)) \<or> GoalManagerReady \<in> set evs"
  shows "firings (GoalsPending # goals_trace og s evs) = 1
         \<and> resets (GoalsPending # goals_trace og s evs) = 0
         \<and> (\<not> (hasDOM e \<and> truthy (cv_fetchGoals cv)) \<longrightarrow> waitUntilGoalsReady s = GoalsFired)
         \<and> (hasDOM e \<and> truthy (cv_fetchGoals cv) \<longrightarrow>
               waitUntilGoalsReady s = GoalsPending
               \<and> waitUntilGoalsReady (shim_step og s GoalManagerReady) = GoalsFired)
         \<and> waitUntilGoalsReady (foldl (shim_step og) s evs) = GoalsFired"
proof -
  have inv: "goals_inv s" using init by (rule initialize_inv)
  obtain tr where tr: "goals_trace og s evs = goalsPromise s # tr"
    using trace_head by blast
  have res: "resets (GoalsPending # goals_trace og s evs) = 0"
    using trace_resets [of og s evs] tr by simp
  have imm: "\<not> (hasDOM e \<and> truthy (cv_fetchGoals cv)) \<longrightarrow> waitUntilGoalsReady s = GoalsFired"
    using initialize_immediate [OF init core] by (simp add: waitUntilGoalsReady_def)
  have dfr: "hasDOM e \<and> truthy (cv_fetchGoals cv) \<longrightarrow>
               waitUntilGoalsReady s = GoalsPending
               \<and> waitUntilGoalsReady (shim_step og s GoalManagerReady) = GoalsFired"
    using initialize_deferred [OF init core] emit_goalsEvent [OF inv]
    by (simp add: waitUntilGoalsReady_def)
  have fir: "firings (GoalsPending # goals_trace og s evs) = 1"
  proof (cases "hasDOM e \<and> truthy (cv_fetchGoals cv)")
    case False
    then have f: "goalsPromise s = GoalsFired" by (rule initialize_immediate [OF init core])
    then have "goals_trace og s evs = replicate (Suc (length evs)) GoalsFired"
      by (rule trace_fired)
    then have "firings (GoalsPending # goals_trace og s evs)
                 = Suc (firings (replicate (Suc (length evs)) GoalsFired))"
      by simp
    then show ?thesis by (simp only: firings_fired)
  next
    case True
    then have p: "goalsPromise s = GoalsPending" and gm: "goalManager s"
      using initialize_deferred [OF init core] by blast+
    from True evs have "GoalManagerReady \<in> set evs" by blast
    then have "firings (goals_trace og s evs) = 1"
      using trace_firings_pending [OF inv gm p] by blast
    then show ?thesis using tr p by simp
  qed
  have fin: "waitUntilGoalsReady (foldl (shim_step og) s evs) = GoalsFired"
  proof (cases "hasDOM e \<and> truthy (cv_fetchGoals cv)")
    case False
    then have "goalsPromise s = GoalsFired" by (rule initialize_immediate [OF init core])
    then show ?thesis by (simp add: waitUntilGoalsReady_def run_fired)
  next
    case True
    then have gm: "goalManager s" using initialize_deferred [OF init core] by blast
    from True evs have "GoalManagerReady \<in> set evs" by blast
    then show ?thesis using run_fires [OF inv gm] by (simp add: waitUntilGoalsReady_def)
  qed
  from fir res imm dfr fin show ?thesis by (intro conjI)
qed

text \<open>
  The same on a page where \<open>global\<close> is declared: \<open>initialize\<close> returns with the promise
  pending, another event leaves it pending, and the goal manager's callback fires it.
\<close>

lemma goalsReady_fires_once_where_constructed_example:
  "\<exists>platform s lc.
      initialize 0 shimmed_page_env \<lparr>disableSyncEventPost = JUndefined,
          eventUrlTransformer = None, useReport = JUndefined\<rparr> plain_core None
        = Inr (platform, s, lc)
      \<and> goals_trace None s [Emitted ''change'', GoalManagerReady, GoalManagerReady]
          = [GoalsPending, GoalsPending, GoalsFired, GoalsFired]
      \<and> firings (GoalsPending # goals_trace None s
             [Emitted ''change'', GoalManagerReady, GoalManagerReady]) = 1
      \<and> waitUntilGoalsReady s = GoalsPending
      \<and> waitUntilGoalsReady (foldl (shim_step None) s
             [Emitted ''change'', GoalManagerReady, GoalManagerReady]) = GoalsFired"
proof -
  let ?opts = "\<lparr>disableSyncEventPost = JUndefined, eventUrlTransformer = None,
                useReport = JUndefined\<rparr>"
  let ?evs = "[Emitted ''change'', GoalManagerReady, GoalManagerReady]"
  let ?cv = "\<lparr> cv_fetchGoals = JBool True, cv_emitter = [] \<rparr>"
  have gl: "global_b shimmed_page_env = Some 0"
    by (simp add: shimmed_page_env_def)
  from makeBrowserPlatform_returns [OF gl, of 0 "Some ?opts"]
  obtain platform where mk: "makeBrowserPlatform 0 shimmed_page_env (Some ?opts) = Inr platform"
    by blast
  have core: "plain_core platform = Inr ?cv" by (simp add: plain_core_def)
  from initialize_returns [where core = plain_core and og = None, OF mk core]
  obtain s lc where init: "initialize 0 shimmed_page_env ?opts plain_core None
                             = Inr (platform, s, lc)"
    by blast
  have dom: "hasDOM shimmed_page_env \<and> truthy (cv_fetchGoals ?cv)"
    by (simp add: hasDOM_def shimmed_page_env_def browser_env_def)
  have sv: "s = \<lparr> emitter = [(goalsEvent, GoalsListener)],
                  goalsPromise = GoalsPending, goalManager = True \<rparr>"
    using initialize_shim [OF init] core dom by (auto simp: emitter_on_def)
  have evs: "\<not> (hasDOM shimmed_page_env \<and> truthy (cv_fetchGoals ?cv))
             \<or> GoalManagerReady \<in> set ?evs"
    by simp
  note t = goalsReady_fires_once_where_constructed [OF init core evs]
  have tr: "goals_trace None s ?evs = [GoalsPending, GoalsPending, GoalsFired, GoalsFired]"
    by (simp add: sv emit_def emitter_off_def goalsEvent_def resolve_def)
  have f: "firings (GoalsPending # goals_trace None s ?evs) = 1" using t by blast
  have w0: "waitUntilGoalsReady s = GoalsPending" using t dom by blast
  have w1: "waitUntilGoalsReady (foldl (shim_step None) s ?evs) = GoalsFired" using t by blast
  from init tr f w0 w1 show ?thesis by blast
qed

text \<open>
  C6. The claim: in every initialization the signal goes from pending to fired exactly
  once, and \<open>waitUntilGoalsReady()\<close> returns the cached promise. The first statement of
  \<open>initialize\<close> builds the platform descriptor. On a page (\<open>self\<close>, \<open>window\<close> and
  \<open>document\<close> declared, \<open>global\<close> not) that call raises the ReferenceError of the
  builder's first probe, whatever the options, the shared core and the emitter are:
  \<open>initialize\<close> ends before the promise is created, no client is returned, and the
  signal never fires.
\<close>

theorem initialize_page_raises:
  "locateGlobal browser_env = Inr 0
   \<and> hasDOM browser_env
   \<and> initialize 0 browser_env opts core onGoals = Inl (ReferenceError ''global is not defined'')"
  by (simp add: locateGlobal_def hasDOM_def browser_env_def initialize_def
        makeBrowserPlatform_def)

end
